theory Spec2Isabelle
  imports Complex_Main
begin

section \<open>Python values used by the knowledge base\<close>

text \<open>
  A Python \<open>str\<close> is a sequence of Unicode code points, so a string is a list of natural
  numbers. \<open>py\<close> embeds the ASCII literals of the source.
\<close>

type_synonym str = "nat list"

definition py :: "string \<Rightarrow> str" where
  "py s = map of_char s"

text \<open>
  A JSON object (a Python \<open>dict\<close>) is an association list in insertion order;
  \<open>dict_get d k v\<close> is \<open>d.get(k, v)\<close>.
\<close>

definition dict_get :: "('k \<times> 'v) list \<Rightarrow> 'k \<Rightarrow> 'v \<Rightarrow> 'v" where
  "dict_get d k dflt = (case map_of d k of None \<Rightarrow> dflt | Some v \<Rightarrow> v)"

datatype py_error = KeyError str

subsection \<open>The standard library, as far as the matching engine calls it\<close>

text \<open>
  \<open>normalize_text\<close> and \<open>search_by_patterns\<close> call into \<open>unicodedata\<close>, \<open>re\<close>, \<open>str\<close> and
  \<open>difflib\<close>. Their tables are no part of the repository; the model takes them as a
  record of functions:
  \<^item> \<open>unicodedata_normalize_NFKD\<close> is \<open>unicodedata.normalize('NFKD', _)\<close>;
  \<^item> \<open>unicodedata_combining\<close> is \<open>unicodedata.combining\<close> (the canonical combining class);
  \<^item> \<open>re_word\<close> is the class \<open>\w\<close> and \<open>re_space\<close> the class \<open>\s\<close> of \<open>re\<close> on \<open>str\<close>
    patterns; \<open>str.strip()\<close> and \<open>str.split()\<close> use the same whitespace test;
  \<^item> \<open>str_lower\<close> is \<open>str.lower\<close>;
  \<^item> \<open>SequenceMatcher_ratio a b\<close> is the value of the float
    \<open>SequenceMatcher(None, a, b).ratio()\<close>, a rational number.
\<close>

record pylib =
  unicodedata_normalize_NFKD :: "str \<Rightarrow> str"
  unicodedata_combining :: "nat \<Rightarrow> nat"
  re_word :: "nat \<Rightarrow> bool"
  re_space :: "nat \<Rightarrow> bool"
  str_lower :: "str \<Rightarrow> str"
  SequenceMatcher_ratio :: "str \<Rightarrow> str \<Rightarrow> rat"

text \<open>\<open>re.sub(r'\s+', ' ', text)\<close>: every maximal run of whitespace becomes one space.\<close>

function re_sub_spaces :: "(nat \<Rightarrow> bool) \<Rightarrow> str \<Rightarrow> str" where
  "re_sub_spaces sp [] = []"
| "re_sub_spaces sp (c # cs) =
     (if sp c then 32 # re_sub_spaces sp (dropWhile sp cs) else c # re_sub_spaces sp cs)"
  by pat_completeness auto
termination
  by (relation "measure (\<lambda>(sp, t). length t)") (auto simp: length_dropWhile_le less_Suc_eq_le)

text \<open>\<open>str.strip()\<close>: leading and trailing whitespace removed.\<close>

definition str_strip :: "(nat \<Rightarrow> bool) \<Rightarrow> str \<Rightarrow> str" where
  "str_strip sp t = rev (dropWhile sp (rev (dropWhile sp t)))"

text \<open>\<open>str.split()\<close>: the maximal runs of non-whitespace, in order.\<close>

function str_split :: "(nat \<Rightarrow> bool) \<Rightarrow> str \<Rightarrow> str list" where
  "str_split sp [] = []"
| "str_split sp (c # cs) =
     (if sp c then str_split sp cs
      else (c # takeWhile (\<lambda>x. \<not> sp x) cs) # str_split sp (dropWhile (\<lambda>x. \<not> sp x) cs))"
  by pat_completeness auto
termination
  by (relation "measure (\<lambda>(sp, t). length t)") (auto simp: length_dropWhile_le less_Suc_eq_le)

text \<open>\<open>sub in str\<close> on strings: \<open>sub\<close> occurs as a contiguous substring.\<close>

fun str_contains :: "str \<Rightarrow> str \<Rightarrow> bool" where
  "str_contains sub [] = (sub = [])"
| "str_contains sub (c # cs) = (take (length sub) (c # cs) = sub \<or> str_contains sub cs)"

section \<open>The knowledge base\<close>

text \<open>
  The JSON document of \<open>load_data\<close>. An entry's \<open>question\<close> and \<open>keywords\<close> are read with
  \<open>.get(_, default)\<close>, so a missing key is the empty value. \<open>entry['id']\<close> is read for
  every entry by \<open>build_search_index\<close> when the object is constructed, so a constructed
  knowledge base has it; \<open>entry['answer']\<close> is first read by \<open>get_answer\<close>, and \<open>None\<close>
  stands for an entry without that key.
\<close>

record entry =
  entry_id :: str
  question :: "(str \<times> str list) list"
  answer :: "(str \<times> str) list option"
  entry_keywords :: "str list"

record category =
  category_name :: "(str \<times> str) list"
  entries :: "entry list"

record kb_data =
  data_categories :: "(str \<times> category) list"
  data_common_questions :: "(str \<times> (str \<times> str list) list) list"
  data_responses :: "(str \<times> (str \<times> str) list) list"

text \<open>
  The dictionaries appended to \<open>keywords_index\<close> buckets and returned by the searches;
  \<open>similarity\<close> is present only on the results of \<open>search_by_patterns\<close>.
\<close>

record match =
  category :: str
  match_entry_id :: str
  match_entry :: entry
  similarity :: "rat option"

record KnowledgeBase =
  data :: kb_data
  categories :: "str list"
  keywords_index :: "(str \<times> match list) list"

subsection \<open>normalize_text\<close>

definition normalize_text :: "pylib \<Rightarrow> str \<Rightarrow> str" where
  "normalize_text L text0 =
     (let text1 = unicodedata_normalize_NFKD L text0;
          text2 = filter (\<lambda>c. unicodedata_combining L c = 0) text1;
          text3 = map (\<lambda>c. if re_word L c \<or> re_space L c then c else 32) text2;
          text4 = str_strip (re_space L) (re_sub_spaces (re_space L) text3)
      in str_lower L text4)"

subsection \<open>build_search_index\<close>

text \<open>
  \<open>keywords_index[k].append(m)\<close>, after \<open>keywords_index[k] = []\<close> when \<open>k\<close> is a new key.
\<close>

fun index_append :: "str \<Rightarrow> match \<Rightarrow> (str \<times> match list) list \<Rightarrow> (str \<times> match list) list" where
  "index_append k m [] = [(k, [m])]"
| "index_append k m ((k', ms) # rest) =
     (if k = k' then (k', ms @ [m]) # rest else (k', ms) # index_append k m rest)"

definition index_entry :: "pylib \<Rightarrow> str \<Rightarrow> entry \<Rightarrow> (str \<times> match list) list \<Rightarrow> (str \<times> match list) list" where
  "index_entry L category_id e idx =
     foldl (\<lambda>idx keyword.
              index_append (normalize_text L (str_lower L keyword))
                \<lparr>category = category_id, match_entry_id = entry_id e, match_entry = e,
                 similarity = None\<rparr> idx)
       idx (entry_keywords e)"

definition build_search_index :: "pylib \<Rightarrow> kb_data \<Rightarrow> (str \<times> match list) list" where
  "build_search_index L d =
     foldl (\<lambda>idx (category_id, category_data).
              foldl (\<lambda>idx e. index_entry L category_id e idx) idx (entries category_data))
       [] (data_categories d)"

text \<open>\<open>__init__\<close> after \<open>load_data\<close> has produced the document \<open>d\<close>.\<close>

definition init :: "pylib \<Rightarrow> kb_data \<Rightarrow> KnowledgeBase" where
  "init L d = \<lparr>data = d, categories = map fst (data_categories d),
              keywords_index = build_search_index L d\<rparr>"

subsection \<open>get_response, is_greeting, is_help_request\<close>

definition apology :: str where
  "apology = py ''I apologize, but I cannot help with that right now.''"

definition get_response :: "KnowledgeBase \<Rightarrow> str \<Rightarrow> str \<Rightarrow> str" where
  "get_response self response_type language =
     (let response_data = dict_get (data_responses (data self)) response_type []
      in dict_get response_data language (dict_get response_data (py ''en'') apology))"

text \<open>The test of both loops: \<open>self.normalize_text(trigger) in text\<close>.\<close>

definition normalized_in :: "pylib \<Rightarrow> str \<Rightarrow> str \<Rightarrow> bool" where
  "normalized_in L txt trigger = str_contains (normalize_text L trigger) txt"

definition is_greeting :: "pylib \<Rightarrow> KnowledgeBase \<Rightarrow> str \<Rightarrow> str \<Rightarrow> bool" where
  "is_greeting L self txt language =
     (let greetings = dict_get (data_common_questions (data self)) (py ''greetings'') [];
          greeting_words = dict_get greetings language [] @ dict_get greetings (py ''en'') []
      in list_ex (normalized_in L txt) greeting_words)"

definition is_help_request :: "pylib \<Rightarrow> KnowledgeBase \<Rightarrow> str \<Rightarrow> str \<Rightarrow> bool" where
  "is_help_request L self txt language =
     (let help_words = dict_get (data_common_questions (data self)) (py ''help'') [];
          help_patterns = dict_get help_words language [] @ dict_get help_words (py ''en'') []
      in list_ex (normalized_in L txt) help_patterns)"

subsection \<open>search_by_patterns and search_entries\<close>

text \<open>The value of the float literal \<open>0.3\<close>, the double nearest to three tenths.\<close>

definition threshold :: rat where
  "threshold = 5404319552844595 / 18014398509481984"

text \<open>
  The body of the loop over \<open>entry_questions\<close>: what one pattern appends to \<open>matches\<close>;
  then the loop over the patterns of one entry.
\<close>

definition pattern_match :: "pylib \<Rightarrow> str \<Rightarrow> str \<Rightarrow> entry \<Rightarrow> str \<Rightarrow> match list" where
  "pattern_match L question0 category_id e pattern =
     (let pattern_normalized = normalize_text L pattern;
          sim = SequenceMatcher_ratio L question0 pattern_normalized
      in if sim > threshold
         then [\<lparr>category = category_id, match_entry_id = entry_id e, match_entry = e,
                similarity = Some sim\<rparr>]
         else [])"

definition entry_matches :: "pylib \<Rightarrow> str \<Rightarrow> str \<Rightarrow> str \<Rightarrow> entry \<Rightarrow> match list" where
  "entry_matches L question0 language category_id e =
     concat (map (pattern_match L question0 category_id e) (dict_get (question e) language []))"

definition search_by_patterns :: "pylib \<Rightarrow> KnowledgeBase \<Rightarrow> str \<Rightarrow> str \<Rightarrow> match list" where
  "search_by_patterns L self question0 language =
     concat (map (\<lambda>(category_id, category_data).
        concat (map (entry_matches L question0 language category_id) (entries category_data)))
       (data_categories (data self)))"

text \<open>The keyword loop of \<open>search_entries\<close>: one bucket, then all words.\<close>

definition add_bucket :: "match list \<Rightarrow> match list \<Rightarrow> match list" where
  "add_bucket matches bucket =
     foldl (\<lambda>ms m. if m \<in> set ms then ms else ms @ [m]) matches bucket"

definition keyword_search :: "(str \<times> match list) list \<Rightarrow> str list \<Rightarrow> match list" where
  "keyword_search idx question_words =
     foldl (\<lambda>ms word. case map_of idx word of None \<Rightarrow> ms | Some bucket \<Rightarrow> add_bucket ms bucket)
       [] question_words"

definition search_entries :: "pylib \<Rightarrow> KnowledgeBase \<Rightarrow> str \<Rightarrow> str \<Rightarrow> match list" where
  "search_entries L self question0 language =
     (let question_words = str_split (re_space L) question0;
          matches = keyword_search (keywords_index self) question_words
      in if matches = [] then search_by_patterns L self question0 language else matches)"

subsection \<open>get_answer\<close>

definition entry_answer :: "entry \<Rightarrow> str \<Rightarrow> py_error + str" where
  "entry_answer e language =
     (case answer e of
        None \<Rightarrow> Inl (KeyError (py ''answer''))
      | Some a \<Rightarrow> Inr (dict_get a language (dict_get a (py ''en'') [])))"

definition get_answer :: "pylib \<Rightarrow> KnowledgeBase \<Rightarrow> str \<Rightarrow> str \<Rightarrow> py_error + str" where
  "get_answer L self question0 language =
     (if str_strip (re_space L) question0 = []
      then Inr (get_response self (py ''not_found'') language)
      else
        (let question_normalized = normalize_text L question0
         in if is_greeting L self question_normalized language
            then Inr (get_response self (py ''greetings'') language)
            else if is_help_request L self question_normalized language
            then Inr (get_response self (py ''help'') language)
            else
              (case search_entries L self question_normalized language of
                 [] \<Rightarrow> Inr (get_response self (py ''not_found'') language)
               | best_match # _ \<Rightarrow> entry_answer (match_entry best_match) language)))"

section \<open>difflib.SequenceMatcher.ratio\<close>

text \<open>
  \<open>__chain_b\<close>: \<open>isjunk\<close> is \<open>None\<close>, so \<open>bjunk\<close> is empty; \<open>autojunk\<close> is on, so for
  \<open>len(b) >= 200\<close> the elements that occur more than \<open>len(b) // 100 + 1\<close> times are popular
  and leave \<open>b2j\<close>.
\<close>

definition is_popular :: "'a list \<Rightarrow> 'a \<Rightarrow> bool" where
  "is_popular b x = (length b \<ge> 200 \<and> count_list b x > length b div 100 + 1)"

definition b2j :: "'a list \<Rightarrow> 'a \<Rightarrow> nat list" where
  "b2j b x = (if is_popular b x then [] else filter (\<lambda>j. b ! j = x) [0..<length b])"

text \<open>
  \<open>find_longest_match\<close>: one row of the main loop (\<open>j2len\<close>, the best block so far), the
  two extension loops over non-junk elements, and the whole. The two loops over junk
  elements never run, \<open>bjunk\<close> being empty.
\<close>

type_synonym block = "nat \<times> nat \<times> nat"

definition flm_row :: "'a list \<Rightarrow> 'a list \<Rightarrow> nat \<Rightarrow> nat \<Rightarrow> nat \<Rightarrow> (nat \<Rightarrow> nat) \<times> block \<Rightarrow> (nat \<Rightarrow> nat) \<times> block" where
  "flm_row a b blo bhi i st =
     foldl (\<lambda>(newj2len, (besti, bestj, bestsize)) j.
              (let k = (if j = 0 then 0 else fst st (j - 1)) + 1
               in (newj2len(j := k),
                   if k > bestsize then (i + 1 - k, j + 1 - k, k) else (besti, bestj, bestsize))))
       (\<lambda>_. 0, snd st)
       (filter (\<lambda>j. blo \<le> j \<and> j < bhi) (b2j b (a ! i)))"

function extend_left :: "'a list \<Rightarrow> 'a list \<Rightarrow> nat \<Rightarrow> nat \<Rightarrow> block \<Rightarrow> block" where
  "extend_left a b alo blo (besti, bestj, bestsize) =
     (if besti > alo \<and> bestj > blo \<and> a ! (besti - 1) = b ! (bestj - 1)
      then extend_left a b alo blo (besti - 1, bestj - 1, bestsize + 1)
      else (besti, bestj, bestsize))"
  by pat_completeness auto
termination
  by (relation "measure (\<lambda>(a, b, alo, blo, besti, bestj, bestsize). besti)") auto

function extend_right :: "'a list \<Rightarrow> 'a list \<Rightarrow> nat \<Rightarrow> nat \<Rightarrow> block \<Rightarrow> block" where
  "extend_right a b ahi bhi (besti, bestj, bestsize) =
     (if besti + bestsize < ahi \<and> bestj + bestsize < bhi
         \<and> a ! (besti + bestsize) = b ! (bestj + bestsize)
      then extend_right a b ahi bhi (besti, bestj, bestsize + 1)
      else (besti, bestj, bestsize))"
  by pat_completeness auto
termination
  by (relation "measure (\<lambda>(a, b, ahi, bhi, besti, bestj, bestsize). ahi - (besti + bestsize))") auto

definition find_longest_match :: "'a list \<Rightarrow> 'a list \<Rightarrow> nat \<Rightarrow> nat \<Rightarrow> nat \<Rightarrow> nat \<Rightarrow> block" where
  "find_longest_match a b alo ahi blo bhi =
     (let best = snd (foldl (\<lambda>st i. flm_row a b blo bhi i st) (\<lambda>_. 0, (alo, blo, 0)) [alo..<ahi])
      in extend_right a b ahi bhi (extend_left a b alo blo best))"


text \<open>The block found lies inside \<open>a[alo:ahi]\<close>; the recursion below terminates by it.\<close>

definition row_ok :: "nat \<Rightarrow> nat \<Rightarrow> (nat \<Rightarrow> nat) \<times> block \<Rightarrow> bool" where
  "row_ok alo i st =
     ((\<forall>j. fst st j \<le> i - alo) \<and>
      (case snd st of (bi, bj, bs) \<Rightarrow> (bs = 0 \<and> bi = alo) \<or> (alo \<le> bi \<and> bi + bs \<le> i)))"

lemma flm_row_ok:
  assumes "row_ok alo i st" "alo \<le> i"
  shows "row_ok alo (Suc i) (flm_row a b blo bhi i st)"
proof -
  have step: "row_ok alo (Suc i)
      (foldl (\<lambda>(newj2len, (besti, bestj, bestsize)) j.
              (let k = (if j = 0 then 0 else fst st (j - 1)) + 1
               in (newj2len(j := k),
                   if k > bestsize then (i + 1 - k, j + 1 - k, k) else (besti, bestj, bestsize))))
        acc js)"
    if "row_ok alo (Suc i) acc" for acc js
    using that
  proof (induction js arbitrary: acc)
    case Nil
    then show ?case by simp
  next
    case (Cons j js)
    obtain n bi bj bs where acc: "acc = (n, bi, bj, bs)" by (cases acc) auto
    have k: "(if j = 0 then 0 else fst st (j - 1)) + 1 \<le> Suc i - alo"
      using assms by (auto simp: row_ok_def Suc_diff_le)
    show ?case
      apply (simp only: foldl_Cons)
      apply (rule Cons.IH)
      using Cons.prems k assms(2) unfolding acc row_ok_def
      by (auto simp: Let_def)
  qed
  have init: "row_ok alo (Suc i) (\<lambda>_. 0, snd st)"
    using assms by (auto simp: row_ok_def split: prod.splits)
  show ?thesis unfolding flm_row_def by (rule step [OF init])
qed

lemma flm_rows_ok:
  "row_ok alo (alo + n)
     (foldl (\<lambda>st i. flm_row a b blo bhi i st) (\<lambda>_. 0, (alo, blo, 0)) [alo..<alo + n])"
proof (induction n)
  case 0
  show ?case by (simp add: row_ok_def)
next
  case (Suc n)
  show ?case using flm_row_ok [OF Suc] by simp
qed

lemma extend_left_ok:
  "(bs = 0 \<and> bi = alo) \<or> (alo \<le> bi \<and> bi + bs \<le> ahi) \<Longrightarrow>
   extend_left a b alo blo (bi, bj, bs) = (i, j, k) \<Longrightarrow>
   (k = 0 \<and> i = alo) \<or> (alo \<le> i \<and> i + k \<le> ahi)"
proof (induction a b alo blo "(bi, bj, bs)" arbitrary: bi bj bs rule: extend_left.induct)
  case (1 a b alo blo besti bestj bestsize)
  show ?case
  proof (cases "besti > alo \<and> bestj > blo \<and> a ! (besti - 1) = b ! (bestj - 1)")
    case True
    have "extend_left a b alo blo (besti - 1, bestj - 1, bestsize + 1) = (i, j, k)"
      using "1.prems"(2) True by simp
    moreover have "(bestsize + 1 = 0 \<and> besti - 1 = alo) \<or>
        (alo \<le> besti - 1 \<and> besti - 1 + (bestsize + 1) \<le> ahi)"
      using "1.prems"(1) True by auto
    ultimately show ?thesis using "1.hyps" True by blast
  next
    case False
    then show ?thesis using "1.prems" by auto
  qed
qed

lemma extend_right_ok:
  "(bs = 0 \<and> bi = alo) \<or> (alo \<le> bi \<and> bi + bs \<le> ahi) \<Longrightarrow>
   extend_right a b ahi bhi (bi, bj, bs) = (i, j, k) \<Longrightarrow>
   (k = 0 \<and> i = alo) \<or> (alo \<le> i \<and> i + k \<le> ahi)"
proof (induction a b ahi bhi "(bi, bj, bs)" arbitrary: bi bj bs rule: extend_right.induct)
  case (1 a b ahi bhi besti bestj bestsize)
  show ?case
  proof (cases "besti + bestsize < ahi \<and> bestj + bestsize < bhi
         \<and> a ! (besti + bestsize) = b ! (bestj + bestsize)")
    case True
    have "extend_right a b ahi bhi (besti, bestj, bestsize + 1) = (i, j, k)"
      using "1.prems"(2) True by simp
    moreover have "(bestsize + 1 = 0 \<and> besti = alo) \<or>
        (alo \<le> besti \<and> besti + (bestsize + 1) \<le> ahi)"
      using "1.prems"(1) True by auto
    ultimately show ?thesis using "1.hyps" True by blast
  next
    case False
    then show ?thesis using "1.prems" by auto
  qed
qed

lemma find_longest_match_bounds:
  assumes "find_longest_match a b alo ahi blo bhi = (i, j, k)"
  shows "(k = 0 \<and> i = alo) \<or> (alo \<le> i \<and> i + k \<le> ahi)"
proof -
  define best where
    "best = snd (foldl (\<lambda>st i. flm_row a b blo bhi i st) (\<lambda>_. 0, (alo, blo, 0)) [alo..<ahi])"
  obtain bi bj bs where best: "best = (bi, bj, bs)" by (cases best) auto
  have b0: "(bs = 0 \<and> bi = alo) \<or> (alo \<le> bi \<and> bi + bs \<le> ahi)"
  proof (cases "alo \<le> ahi")
    case True
    then obtain n where n: "ahi = alo + n" using le_Suc_ex by blast
    show ?thesis using flm_rows_ok [of alo n a b blo bhi] best
      unfolding best_def n row_ok_def by auto
  next
    case False
    then show ?thesis using best unfolding best_def by simp
  qed
  obtain i1 j1 k1 where l: "extend_left a b alo blo (bi, bj, bs) = (i1, j1, k1)"
    by (cases "extend_left a b alo blo (bi, bj, bs)") auto
  have b1: "(k1 = 0 \<and> i1 = alo) \<or> (alo \<le> i1 \<and> i1 + k1 \<le> ahi)"
    by (rule extend_left_ok [OF b0 l])
  have "extend_right a b ahi bhi (i1, j1, k1) = (i, j, k)"
    using assms l best unfolding find_longest_match_def best_def [symmetric] by simp
  then show ?thesis by (rule extend_right_ok [OF b1])
qed

text \<open>
  The sum of the sizes of \<open>get_matching_blocks()\<close>: the queue of
  \<open>get_matching_blocks\<close> as a recursion on the two remaining ranges.
\<close>

function matching_size :: "'a list \<Rightarrow> 'a list \<Rightarrow> nat \<Rightarrow> nat \<Rightarrow> nat \<Rightarrow> nat \<Rightarrow> nat" where
  "matching_size a b alo ahi blo bhi =
     (case find_longest_match a b alo ahi blo bhi of
        (i, j, k) \<Rightarrow>
          if k = 0 then 0
          else k + (if alo < i \<and> blo < j then matching_size a b alo i blo j else 0)
                 + (if i + k < ahi \<and> j + k < bhi then matching_size a b (i + k) ahi (j + k) bhi
                    else 0))"
  by pat_completeness auto
termination
proof (relation "measure (\<lambda>(a, b, alo, ahi, blo, bhi). ahi - alo)")
  show "wf (measure (\<lambda>(a, b, alo, ahi, blo, bhi). ahi - alo))" by simp
next
  fix a b :: "'a list" and alo ahi blo bhi i j k :: nat and x y
  assume "(i, y) = find_longest_match a b alo ahi blo bhi" "(j, k) = y"
    and g: "k \<noteq> 0" "alo < i \<and> blo < j"
  then have "find_longest_match a b alo ahi blo bhi = (i, j, k)" by simp
  from find_longest_match_bounds [OF this] g
  show "((a, b, alo, i, blo, j), (a, b, alo, ahi, blo, bhi))
      \<in> measure (\<lambda>(a, b, alo, ahi, blo, bhi). ahi - alo)" by auto
next
  fix a b :: "'a list" and alo ahi blo bhi i j k :: nat and x y
  assume "(i, y) = find_longest_match a b alo ahi blo bhi" "(j, k) = y"
    and g: "k \<noteq> 0" "i + k < ahi \<and> j + k < bhi"
  then have "find_longest_match a b alo ahi blo bhi = (i, j, k)" by simp
  from find_longest_match_bounds [OF this] g
  show "((a, b, i + k, ahi, j + k, bhi), (a, b, alo, ahi, blo, bhi))
      \<in> measure (\<lambda>(a, b, alo, ahi, blo, bhi). ahi - alo)" by auto
qed

text \<open>
  \<open>2.0 * matches / length\<close>: the quotient of two integers below \<open>2 ^ 53\<close>, rounded to the
  nearest double, ties to even (quotients in the normal range).
\<close>

definition round_half_even :: "int \<Rightarrow> int \<Rightarrow> int" where
  "round_half_even n d =
     (let q = n div d; r = n mod d
      in if 2 * r < d then q else if 2 * r > d then q + 1 else if even q then q else q + 1)"

function binade :: "int \<Rightarrow> int \<Rightarrow> nat \<Rightarrow> nat" where
  "binade n d e = (if n \<le> 0 \<or> d * 2 ^ 52 \<le> n * 2 ^ e then e else binade n d (e + 1))"
  by pat_completeness auto
termination
proof (relation "measure (\<lambda>(n, d, e). nat (d * 2 ^ 52 - n * 2 ^ e))", goal_cases)
  case 1
  show ?case by simp
next
  case (2 n d e)
  define x where "x = n * 2 ^ e"
  have "0 < x" "x < d * 2 ^ 52" using 2 by (auto simp: x_def)
  then have "nat (d * 2 ^ 52 - 2 * x) < nat (d * 2 ^ 52 - x)" by arith
  then show ?case by (simp add: x_def mult.assoc mult.left_commute del: power_numeral)
qed

definition float_div :: "int \<Rightarrow> int \<Rightarrow> rat" where
  "float_div n d =
     (if n = 0 then 0
      else let e = binade n d 0 in of_int (round_half_even (n * 2 ^ e) d) / 2 ^ e)"

definition difflib_ratio :: "'a list \<Rightarrow> 'a list \<Rightarrow> rat" where
  "difflib_ratio a b =
     (let matches = matching_size a b 0 (length a) 0 (length b);
          length0 = length a + length b
      in if length0 \<noteq> 0 then float_div (2 * int matches) (int length0) else 1)"


subsection \<open>CPython on ASCII text\<close>

text \<open>
  What CPython 3 computes on code points below 128: NFKD leaves them alone, none is
  combining, \<open>\w\<close> is \<open>[A-Za-z0-9_]\<close>, whitespace is \<open>\t \n \v \f \r\<close>, the separators
  \<open>0x1c\<close> to \<open>0x1f\<close> and the space, and \<open>lower\<close> shifts \<open>A-Z\<close>. On other code points
  \<open>cpython_ascii\<close> is no model of CPython; it is used on ASCII text only.
\<close>

definition ascii_word :: "nat \<Rightarrow> bool" where
  "ascii_word c = ((48 \<le> c \<and> c \<le> 57) \<or> (65 \<le> c \<and> c \<le> 90) \<or> c = 95 \<or> (97 \<le> c \<and> c \<le> 122))"

definition ascii_space :: "nat \<Rightarrow> bool" where
  "ascii_space c = ((9 \<le> c \<and> c \<le> 13) \<or> (28 \<le> c \<and> c \<le> 32))"

definition ascii_lower :: "nat \<Rightarrow> nat" where
  "ascii_lower c = (if 65 \<le> c \<and> c \<le> 90 then c + 32 else c)"

definition cpython_ascii :: pylib where
  "cpython_ascii =
     \<lparr>unicodedata_normalize_NFKD = (\<lambda>t. t),
      unicodedata_combining = (\<lambda>c. 0),
      re_word = ascii_word,
      re_space = ascii_space,
      str_lower = map ascii_lower,
      SequenceMatcher_ratio = difflib_ratio\<rparr>"

section \<open>Knowledge-base documents used as concrete inputs\<close>

text \<open>
  A document whose only question variant is a punctuation mark, as
  \<open>agricultural_data.json\<close> may hold it.
\<close>

definition punctuation_data :: kb_data where
  "punctuation_data =
     \<lparr>data_categories =
        [(py ''general'',
          \<lparr>category_name = [(py ''en'', py ''General'')],
           entries =
             [\<lparr>entry_id = py ''ask'',
               question = [(py ''en'', [py ''?''])],
               answer = Some [(py ''en'', py ''Ask me about crops.'')],
               entry_keywords = []\<rparr>]\<rparr>)],
      data_common_questions = [],
      data_responses = [(py ''not_found'', [(py ''en'', py ''Sorry.'')])]\<rparr>"

section \<open>Words of a question and the keyword pass\<close>

lemma str_split_tokens: "w \<in> set (str_split sp t) \<Longrightarrow> w \<noteq> [] \<and> \<not> list_ex sp w"
proof (induction sp t rule: str_split.induct)
  case (1 sp)
  then show ?case by simp
next
  case (2 sp c cs)
  show ?case
  proof (cases "sp c")
    case True
    with 2 show ?thesis by simp
  next
    case False
    from "2.prems" False
    have "w = c # takeWhile (\<lambda>x. \<not> sp x) cs
        \<or> w \<in> set (str_split sp (dropWhile (\<lambda>x. \<not> sp x) cs))"
      by simp
    then show ?thesis
    proof
      assume w: "w = c # takeWhile (\<lambda>x. \<not> sp x) cs"
      have "\<forall>x \<in> set (takeWhile (\<lambda>x. \<not> sp x) cs). \<not> sp x"
        using set_takeWhileD by fastforce
      with w False show ?thesis by (simp add: list_ex_iff)
    next
      assume "w \<in> set (str_split sp (dropWhile (\<lambda>x. \<not> sp x) cs))"
      with "2.IH"(2) False show ?thesis by blast
    qed
  qed
qed

lemma map_of_filter_keys:
  "map_of (filter (\<lambda>(k, b). Q k) idx) w = (if Q w then map_of idx w else None)"
  by (induction idx) auto

lemma keyword_search_filter:
  assumes "\<forall>w \<in> set ws. Q w"
  shows "keyword_search (filter (\<lambda>(k, b). Q k) idx) ws = keyword_search idx ws"
proof -
  have "foldl (\<lambda>ms word. case map_of (filter (\<lambda>(k, b). Q k) idx) word of
                  None \<Rightarrow> ms | Some bucket \<Rightarrow> add_bucket ms bucket) acc ws
      = foldl (\<lambda>ms word. case map_of idx word of
                  None \<Rightarrow> ms | Some bucket \<Rightarrow> add_bucket ms bucket) acc ws" for acc
    using assms by (induction ws arbitrary: acc) (simp_all add: map_of_filter_keys)
  then show ?thesis by (simp add: keyword_search_def)
qed

section \<open>The claims\<close>

text \<open>
  C7, as the specification states it: a question that is empty or whitespace-only after
  normalization gets the \<open>not_found\<close> response. The guard of \<open>get_answer\<close> tests
  \<open>question.strip()\<close>, the question as given, not its normalization. The question \<open>!\<close>
  normalizes to the empty string and passes the guard; against the question variant \<open>?\<close>,
  which normalizes to the empty string too, the fuzzy pass scores 1.0, and the entry's
  answer is returned.
\<close>

theorem get_answer_empty_after_normalization_counterexample:
  "normalize_text cpython_ascii (py ''!'') = [] \<and>
   get_answer cpython_ascii (init cpython_ascii punctuation_data) (py ''!'') (py ''en'')
     = Inr (py ''Ask me about crops.'') \<and>
   get_response (init cpython_ascii punctuation_data) (py ''not_found'') (py ''en'')
     = py ''Sorry.''"
  by code_simp

text \<open>
  C7, amended: a question that is empty or whitespace-only as given (\<open>question.strip()\<close>
  is empty) gets the \<open>not_found\<close> response, whatever the categories and the keyword index
  hold; in particular the empty question does.
\<close>

theorem get_answer_blank:
  "(str_strip (re_space L) question0 = [] \<longrightarrow>
      get_answer L self question0 language
        = Inr (get_response self (py ''not_found'') language)) \<and>
   get_answer L self [] language = Inr (get_response self (py ''not_found'') language)"
  by (simp add: get_answer_def str_strip_def)

theorem get_answer_blank_witness:
  "str_strip (re_space cpython_ascii) (py ''   '') = [] \<and>
   get_answer cpython_ascii (init cpython_ascii punctuation_data) (py ''   '') (py ''en'')
     = Inr (py ''Sorry.'')"
proof -
  have blank: "str_strip (re_space cpython_ascii) (py ''   '') = []"
    by code_simp
  have nf: "get_response (init cpython_ascii punctuation_data) (py ''not_found'') (py ''en'')
      = py ''Sorry.''"
    by code_simp
  from get_answer_blank [of cpython_ascii "py ''   ''" "init cpython_ascii punctuation_data"
      "py ''en''"] blank nf
  show ?thesis by simp
qed

text \<open>
  C10: the words of a question hold no whitespace, so an index key that holds some is
  never looked up: deleting every such key from the index changes no answer.
\<close>

theorem multi_word_keywords_unreachable:
  "get_answer L
     (self\<lparr>keywords_index :=
        filter (\<lambda>(k, bucket). \<not> list_ex (re_space L) k) (keywords_index self)\<rparr>)
     question0 language
   = get_answer L self question0 language"
proof -
  let ?self' = "self\<lparr>keywords_index :=
        filter (\<lambda>(k, bucket). \<not> list_ex (re_space L) k) (keywords_index self)\<rparr>"
  have words: "\<forall>w \<in> set (str_split (re_space L) q). \<not> list_ex (re_space L) w" for q
    using str_split_tokens by blast
  have kw: "keyword_search
        (filter (\<lambda>(k, bucket). \<not> list_ex (re_space L) k) (keywords_index self))
        (str_split (re_space L) q)
      = keyword_search (keywords_index self) (str_split (re_space L) q)" for q
    by (rule keyword_search_filter [OF words])
  have sp: "search_by_patterns L ?self' q lang = search_by_patterns L self q lang" for q lang
    by (simp add: search_by_patterns_def)
  have se: "search_entries L ?self' q lang = search_entries L self q lang" for q lang
    by (simp add: search_entries_def Let_def kw sp)
  have gr: "is_greeting L ?self' t lang = is_greeting L self t lang" for t lang
    by (simp add: is_greeting_def)
  have hp: "is_help_request L ?self' t lang = is_help_request L self t lang" for t lang
    by (simp add: is_help_request_def)
  have rs: "get_response ?self' r lang = get_response self r lang" for r lang
    by (simp add: get_response_def)
  show ?thesis by (simp only: get_answer_def Let_def se gr hp rs)
qed

end
